theory Spec2Isabelle
  imports Complex_Main "HOL-Library.AList"
begin

section \<open>Browser metrics: performance entries, spans and measurements\<close>

text \<open>
  A shallow embedding of \<^verbatim>\<open>packages/browser-utils/src/metrics/browserMetrics.ts\<close>.
  A JavaScript number is a \<^typ>\<open>real\<close> (rounding, NaN and the infinities of IEEE doubles
  are not modelled), a string is the list of its code units, an optional property is an
  \<^typ>\<open>'a option\<close>, an object used as a
  dictionary is an association list in insertion order, and the module-level variables
  are the fields of a record that every operation takes and returns. Calls into the
  tracing layer (\<^verbatim>\<open>startAndEndSpan\<close>, \<^verbatim>\<open>setMeasurement\<close>, \<^verbatim>\<open>span.setAttribute\<close>,
  \<^verbatim>\<open>startInactiveSpan\<close>) are recorded, in call order, as the effects of an operation.
\<close>

subsection \<open>Data\<close>

text \<open>A DOM node, known only through the resolvers of the host.\<close>
type_synonym node = string

text \<open>The value of a span attribute: a string, a number or a boolean.\<close>
datatype attrValue = AStr string | ANum real | ABool bool

type_synonym SpanAttributes = "(string \<times> attrValue) list"

text \<open>A measurement \<^verbatim>\<open>{ value, unit }\<close>; \<^verbatim>\<open>Measurements\<close> maps names to measurements.\<close>
record Measurement =
  val :: real
  unit :: string

type_synonym Measurements = "(string \<times> Measurement) list"

text \<open>
  A performance entry (\<^verbatim>\<open>Record<string, any>\<close> in the source). The four properties of
  every \<^verbatim>\<open>PerformanceEntry\<close> are fields. \<open>timing\<close> holds the properties that the
  source reads under a computed key and as \<^verbatim>\<open>number | undefined\<close>
  (\<^verbatim>\<open>entry[`${event}Start`]\<close>); \<open>requestStart\<close>, \<open>responseStart\<close> and \<open>responseEnd\<close>
  are read \<^verbatim>\<open>as number\<close>; the remaining fields are those of \<^verbatim>\<open>ResourceEntry\<close> and the
  target of an event entry.
\<close>
record entry =
  entryType :: string
  name :: string
  startTime :: real
  duration :: real
  timing :: "(string \<times> real) list"
  requestStart :: real
  responseStart :: real
  responseEnd :: real
  initiatorType :: "string option"
  transferSize :: "real option"
  encodedBodySize :: "real option"
  decodedBodySize :: "real option"
  renderBlockingStatus :: "string option"
  deliveryType :: "string option"
  target :: node

text \<open>The retained raw entries of the LCP and CLS subscribers.\<close>
record LargestContentfulPaint =
  element :: "node option"
  lcpId :: string
  lcpUrl :: string
  lcpSize :: real

record LayoutShift =
  sources :: "node list option"

text \<open>What \<^verbatim>\<open>spanToJSON(span)\<close> gives for the span passed in.\<close>
record spanJSON =
  op :: "string option"
  start_timestamp :: real

text \<open>A child span that was started and ended: one call of \<^verbatim>\<open>startAndEndSpan\<close>.\<close>
record SyntheticSpan =
  spanName :: string
  spanOp :: string
  startTimestamp :: real
  endTimestamp :: real
  attributes :: SpanAttributes

record AddPerformanceEntriesOptions =
  recordClsOnPageloadSpan :: bool

record parsedUrl =
  protocol :: "string option"
  urlHost :: "string option"

record NetworkInformation =
  connType :: "string option"
  effectiveType :: "string option"
  rtt :: "real option"

record navigatorT =
  connection :: "NetworkInformation option"
  deviceMemory :: "real option"
  hardwareConcurrency :: "real option"

text \<open>
  The host environment and the imported helpers that are not part of this module, as
  parameters: the Performance API (\<open>hasPerformance\<close>: \<^verbatim>\<open>getBrowserPerformanceAPI()\<close> is
  defined; \<open>hasGetEntries\<close>: \<^verbatim>\<open>WINDOW.performance.getEntries\<close> is), the time origin in
  milliseconds, the cumulative entry log, \<^verbatim>\<open>getNavigationEntry()\<close>,
  \<^verbatim>\<open>getActivationStart()\<close>, the first-hidden time of \<^verbatim>\<open>getVisibilityWatcher()\<close> (\<open>None\<close> is
  \<^verbatim>\<open>Infinity\<close>), \<^verbatim>\<open>WINDOW.navigator\<close>, \<^verbatim>\<open>WINDOW.location.origin\<close>, \<^verbatim>\<open>parseUrl\<close>,
  \<^verbatim>\<open>htmlTreeAsString\<close>, \<^verbatim>\<open>getComponentName\<close>, whether \<^verbatim>\<open>getActiveSpan()\<close> returns a span,
  the conversion of a number to a string, and \<^verbatim>\<open>String.prototype.trim\<close>.
\<close>
record host =
  hasPerformance :: bool
  hasGetEntries :: bool
  browserPerformanceTimeOrigin :: "real option"
  getEntries :: "entry list"
  getNavigationEntry :: "entry option"
  getActivationStart :: real
  firstHiddenTime :: "real option"
  navigator :: "navigatorT option"
  locationOrigin :: string
  parseUrl :: "string \<Rightarrow> parsedUrl"
  htmlTreeAsString :: "node \<Rightarrow> string"
  getComponentName :: "node \<Rightarrow> string option"
  getActiveSpan :: bool
  numToString :: "real \<Rightarrow> string"
  stringTrim :: "string \<Rightarrow> string"

text \<open>
  The module-level variables \<^verbatim>\<open>_performanceCursor\<close>, \<^verbatim>\<open>_measurements\<close>, \<^verbatim>\<open>_lcpEntry\<close>
  and \<^verbatim>\<open>_clsEntry\<close>.
\<close>
record session =
  performanceCursor :: nat
  measurements :: Measurements
  lcpEntry :: "LargestContentfulPaint option"
  clsEntry :: "LayoutShift option"

text \<open>
  What one call does to the tracing layer: the spans started and ended, the calls of
  \<^verbatim>\<open>setMeasurement\<close> and the calls of \<^verbatim>\<open>span.setAttribute\<close>, each in call order.
\<close>
record effects =
  spans :: "SyntheticSpan list"
  setMeasurement :: "(string \<times> Measurement) list"
  setAttribute :: "(string \<times> attrValue) list"

subsection \<open>Helpers\<close>

definition MAX_INT_AS_BYTES :: real where
  "MAX_INT_AS_BYTES = 2147483647"

text \<open>
  Modelled from the spec: the constant \<^verbatim>\<open>SEMANTIC_ATTRIBUTE_SENTRY_ORIGIN\<close> of the tracing
  layer, the key of the "origin" tag of section 4.3.
\<close>
definition SEMANTIC_ATTRIBUTE_SENTRY_ORIGIN :: string where
  "SEMANTIC_ATTRIBUTE_SENTRY_ORIGIN = ''sentry.origin''"

text \<open>
  Modelled from the spec: \<^verbatim>\<open>msToSec\<close> of \<^verbatim>\<open>./utils\<close>, the conversion of milliseconds to
  seconds.
\<close>
definition msToSec :: "real \<Rightarrow> real" where
  "msToSec time = time / 1000"

text \<open>
  Modelled from the spec: \<^verbatim>\<open>startAndEndSpan\<close> of \<^verbatim>\<open>./utils\<close>. By section 3 a synthetic
  span is created already ended, with the start, the end, the name, the op and the
  attributes it is given; the parent is always the span passed to
  \<^verbatim>\<open>addPerformanceEntries\<close>.
\<close>
definition startAndEndSpan :: "real \<Rightarrow> real \<Rightarrow> string \<Rightarrow> string \<Rightarrow> SpanAttributes \<Rightarrow> SyntheticSpan" where
  "startAndEndSpan startTimeInSeconds endTime nm opr attrs =
     \<lparr>spanName = nm, spanOp = opr, startTimestamp = startTimeInSeconds,
      endTimestamp = endTime, attributes = attrs\<rparr>"

text \<open>JavaScript truthiness of an optional number: it is defined and not 0.\<close>
definition truthyNum :: "real option \<Rightarrow> bool" where
  "truthyNum x = (case x of None \<Rightarrow> False | Some v \<Rightarrow> v \<noteq> 0)"

text \<open>\<^verbatim>\<open>s.includes(sub)\<close>.\<close>
fun strIncludes :: "string \<Rightarrow> string \<Rightarrow> bool" where
  "strIncludes [] sub = (sub = [])"
| "strIncludes (c # cs) sub = (take (length sub) (c # cs) = sub \<or> strIncludes cs sub)"

text \<open>\<^verbatim>\<open>s.replace(pat, '')\<close>: the first occurrence of a string pattern is removed.\<close>
fun removeFirst :: "string \<Rightarrow> string \<Rightarrow> string" where
  "removeFirst [] pat = []"
| "removeFirst (c # cs) pat =
     (if take (length pat) (c # cs) = pat then drop (length pat) (c # cs)
      else c # removeFirst cs pat)"

text \<open>\<^verbatim>\<open>s.split(':').pop()\<close>: what follows the last colon.\<close>
definition splitPop :: "string \<Rightarrow> string" where
  "splitPop s = rev (takeWhile (\<lambda>c. c \<noteq> CHR '':'') (rev s))"

text \<open>\<^verbatim>\<open>a || b\<close> on an optional string: the first operand when it is truthy.\<close>
definition strOr :: "string option \<Rightarrow> string \<Rightarrow> string" where
  "strOr x d = (case x of None \<Rightarrow> d | Some v \<Rightarrow> if v = [] then d else v)"

subsection \<open>The web-vital subscribers\<close>

text \<open>
  The callbacks of \<^verbatim>\<open>_trackCLS\<close>, \<^verbatim>\<open>_trackLCP\<close>, \<^verbatim>\<open>_trackFID\<close> and \<^verbatim>\<open>_trackTtfb\<close>, given
  \<^verbatim>\<open>metric.value\<close> and \<^verbatim>\<open>metric.entries\<close>. Each takes the last entry of the report and
  returns at once when there is none. \<^verbatim>\<open>_trackFID\<close> reads
  \<^verbatim>\<open>browserPerformanceTimeOrigin as number\<close>, here the argument \<open>timeOriginMs\<close>.
\<close>
definition trackCLS :: "real \<Rightarrow> LayoutShift list \<Rightarrow> session \<Rightarrow> session" where
  "trackCLS metricValue metricEntries s =
     (case rev metricEntries of
        [] \<Rightarrow> s
      | e # _ \<Rightarrow>
          s\<lparr>measurements := AList.update ''cls'' \<lparr>val = metricValue, unit = []\<rparr> (measurements s),
            clsEntry := Some e\<rparr>)"

definition trackLCP :: "real \<Rightarrow> LargestContentfulPaint list \<Rightarrow> session \<Rightarrow> session" where
  "trackLCP metricValue metricEntries s =
     (case rev metricEntries of
        [] \<Rightarrow> s
      | e # _ \<Rightarrow>
          s\<lparr>measurements := AList.update ''lcp'' \<lparr>val = metricValue, unit = ''millisecond''\<rparr> (measurements s),
            lcpEntry := Some e\<rparr>)"

definition trackFID :: "real \<Rightarrow> real \<Rightarrow> entry list \<Rightarrow> session \<Rightarrow> session" where
  "trackFID timeOriginMs metricValue metricEntries s =
     (case rev metricEntries of
        [] \<Rightarrow> s
      | e # _ \<Rightarrow>
          (let timeOrigin = msToSec timeOriginMs;
               startTimeS = msToSec (startTime e)
           in s\<lparr>measurements :=
                  AList.update ''mark.fid'' \<lparr>val = timeOrigin + startTimeS, unit = ''second''\<rparr>
                    (AList.update ''fid'' \<lparr>val = metricValue, unit = ''millisecond''\<rparr> (measurements s))\<rparr>))"

definition trackTtfb :: "real \<Rightarrow> entry list \<Rightarrow> session \<Rightarrow> session" where
  "trackTtfb metricValue metricEntries s =
     (case rev metricEntries of
        [] \<Rightarrow> s
      | e # _ \<Rightarrow>
          s\<lparr>measurements := AList.update ''ttfb'' \<lparr>val = metricValue, unit = ''millisecond''\<rparr> (measurements s)\<rparr>)"

subsection \<open>The interaction handler\<close>

text \<open>
  The handler that \<^verbatim>\<open>startTrackingInteractions\<close> installs for \<^verbatim>\<open>event\<close> entries, given a
  batch of entries; the result lists the spans it starts with \<^verbatim>\<open>startInactiveSpan\<close>, each
  with the timestamp it is ended at. \<open>timeOriginMs\<close> is
  \<^verbatim>\<open>browserPerformanceTimeOrigin as number\<close>.
\<close>
definition interactionSpan :: "host \<Rightarrow> real \<Rightarrow> entry \<Rightarrow> SyntheticSpan" where
  "interactionSpan h timeOriginMs e =
     (let startTimeS = msToSec (timeOriginMs + startTime e);
          durationS = msToSec (duration e);
          attrs = [(SEMANTIC_ATTRIBUTE_SENTRY_ORIGIN, AStr ''auto.ui.browser.metrics'')];
          attrs' = (case getComponentName h (target e) of
                      None \<Rightarrow> attrs
                    | Some componentName \<Rightarrow>
                        if componentName = [] then attrs
                        else AList.update ''ui.component_name'' (AStr componentName) attrs)
      in \<lparr>spanName = htmlTreeAsString h (target e),
          spanOp = ''ui.interaction.'' @ name e,
          startTimestamp = startTimeS,
          endTimestamp = startTimeS + durationS,
          attributes = attrs'\<rparr>)"

definition interactionHandler :: "host \<Rightarrow> real \<Rightarrow> entry list \<Rightarrow> SyntheticSpan list" where
  "interactionHandler h timeOriginMs es =
     (if \<not> getActiveSpan h then []
      else concat (map (\<lambda>e. if name e = ''click'' then [interactionSpan h timeOriginMs e] else []) es))"

subsection \<open>The classifier\<close>

text \<open>
  \<^verbatim>\<open>_addMeasureSpans\<close>: the span of a mark, paint or measure entry. The arguments
  \<open>startTimeS\<close> and \<open>durationS\<close> are in seconds, as the caller converts them; the number that
  the source returns is the start timestamp of the span given here.
\<close>
definition addMeasureSpans :: "host \<Rightarrow> entry \<Rightarrow> real \<Rightarrow> real \<Rightarrow> real \<Rightarrow> SyntheticSpan" where
  "addMeasureSpans h e startTimeS durationS timeOrigin =
     (let requestTime = msToSec (case getNavigationEntry h of
                                   Some navEntry \<Rightarrow> requestStart navEntry | None \<Rightarrow> 0);
          measureStartTimestamp = timeOrigin + max startTimeS requestTime;
          startTimeStamp = timeOrigin + startTimeS;
          measureEndTimestamp = startTimeStamp + durationS;
          attrs = [(SEMANTIC_ATTRIBUTE_SENTRY_ORIGIN, AStr ''auto.resource.browser.metrics'')];
          attrs' = (if measureStartTimestamp \<noteq> startTimeStamp
                    then AList.update ''sentry.browser.measure_start_time'' (ANum measureStartTimestamp)
                           (AList.update ''sentry.browser.measure_happened_before_request'' (ABool True) attrs)
                    else attrs)
      in startAndEndSpan measureStartTimestamp measureEndTimestamp (name e) (entryType e) attrs')"

text \<open>
  \<^verbatim>\<open>_addPerformanceNavigationTiming\<close>, with its two optional arguments. The span is
  emitted when the start and the end read from the entry are both defined and not 0.
\<close>
definition addPerformanceNavigationTiming ::
  "entry \<Rightarrow> string \<Rightarrow> real \<Rightarrow> string option \<Rightarrow> string option \<Rightarrow> SyntheticSpan list" where
  "addPerformanceNavigationTiming e event timeOrigin nm eventEnd =
     (case map_of (timing e) (event @ ''Start'') of
        None \<Rightarrow> []
      | Some startV \<Rightarrow>
          (case map_of (timing e) (strOr eventEnd (event @ ''End'')) of
             None \<Rightarrow> []
           | Some endV \<Rightarrow>
               if startV = 0 \<or> endV = 0 then []
               else [startAndEndSpan (timeOrigin + msToSec startV) (timeOrigin + msToSec endV) (name e)
                       (''browser.'' @ strOr nm event)
                       [(SEMANTIC_ATTRIBUTE_SENTRY_ORIGIN, AStr ''auto.ui.browser.metrics'')]]))"

text \<open>\<^verbatim>\<open>_addRequest\<close>: the request and response spans of a navigation entry.\<close>
definition addRequest :: "entry \<Rightarrow> real \<Rightarrow> SyntheticSpan list" where
  "addRequest e timeOrigin =
     (let requestStartTimestamp = timeOrigin + msToSec (requestStart e);
          responseEndTimestamp = timeOrigin + msToSec (responseEnd e);
          responseStartTimestamp = timeOrigin + msToSec (responseStart e)
      in if responseEnd e \<noteq> 0
         then [startAndEndSpan requestStartTimestamp responseEndTimestamp (name e) ''browser.request''
                 [(SEMANTIC_ATTRIBUTE_SENTRY_ORIGIN, AStr ''auto.ui.browser.metrics'')],
               startAndEndSpan responseStartTimestamp responseEndTimestamp (name e) ''browser.response''
                 [(SEMANTIC_ATTRIBUTE_SENTRY_ORIGIN, AStr ''auto.ui.browser.metrics'')]]
         else [])"

text \<open>\<^verbatim>\<open>_addNavigationSpans\<close>.\<close>
definition addNavigationSpans :: "entry \<Rightarrow> real \<Rightarrow> SyntheticSpan list" where
  "addNavigationSpans e timeOrigin =
     concat (map (\<lambda>event. addPerformanceNavigationTiming e event timeOrigin None None)
               [''unloadEvent'', ''redirect'', ''domContentLoadedEvent'', ''loadEvent'', ''connect''])
     @ addPerformanceNavigationTiming e ''secureConnection'' timeOrigin (Some ''TLS/SSL'') (Some ''connectEnd'')
     @ addPerformanceNavigationTiming e ''fetch'' timeOrigin (Some ''cache'') (Some ''domainLookupStart'')
     @ addPerformanceNavigationTiming e ''domainLookup'' timeOrigin (Some ''DNS'') None
     @ addRequest e timeOrigin"

text \<open>\<^verbatim>\<open>setResourceEntrySizeData\<close>; \<open>entrySize\<close> is the read \<^verbatim>\<open>entry[key]\<close>.\<close>
definition entrySize :: "entry \<Rightarrow> string \<Rightarrow> real option" where
  "entrySize e key =
     (if key = ''transferSize'' then transferSize e
      else if key = ''encodedBodySize'' then encodedBodySize e
      else if key = ''decodedBodySize'' then decodedBodySize e
      else None)"

definition setResourceEntrySizeData :: "SpanAttributes \<Rightarrow> entry \<Rightarrow> string \<Rightarrow> string \<Rightarrow> SpanAttributes" where
  "setResourceEntrySizeData attrs e key dataKey =
     (case entrySize e key of
        None \<Rightarrow> attrs
      | Some entryVal \<Rightarrow>
          if entryVal < MAX_INT_AS_BYTES then AList.update dataKey (ANum entryVal) attrs else attrs)"

text \<open>\<^verbatim>\<open>_addResourceSpans\<close>: no span or one span for a resource entry.\<close>
definition addResourceSpans :: "host \<Rightarrow> entry \<Rightarrow> string \<Rightarrow> real \<Rightarrow> real \<Rightarrow> real \<Rightarrow> SyntheticSpan list" where
  "addResourceSpans h e resourceUrl startTimeS durationS timeOrigin =
     (if initiatorType e = Some ''xmlhttprequest'' \<or> initiatorType e = Some ''fetch'' then []
      else
        let url = parseUrl h resourceUrl;
            a0 = [(SEMANTIC_ATTRIBUTE_SENTRY_ORIGIN, AStr ''auto.resource.browser.metrics'')];
            a1 = setResourceEntrySizeData a0 e ''transferSize'' ''http.response_transfer_size'';
            a2 = setResourceEntrySizeData a1 e ''encodedBodySize'' ''http.response_content_length'';
            a3 = setResourceEntrySizeData a2 e ''decodedBodySize'' ''http.decoded_response_content_length'';
            a4 = (case deliveryType e of
                    None \<Rightarrow> a3
                  | Some d \<Rightarrow> AList.update ''http.response_delivery_type'' (AStr (strOr (Some d) ''default'')) a3);
            a5 = (case renderBlockingStatus e of
                    None \<Rightarrow> a4
                  | Some r \<Rightarrow> AList.update ''resource.render_blocking_status'' (AStr r) a4);
            a6 = (case protocol url of
                    None \<Rightarrow> a5
                  | Some p \<Rightarrow> if p = [] then a5 else AList.update ''url.scheme'' (AStr (splitPop p)) a5);
            a7 = (case urlHost url of
                    None \<Rightarrow> a6
                  | Some hst \<Rightarrow> if hst = [] then a6 else AList.update ''server.address'' (AStr hst) a6);
            a8 = AList.update ''url.same_origin'' (ABool (strIncludes resourceUrl (locationOrigin h))) a7;
            startTimestampV = timeOrigin + startTimeS;
            endTimestampV = startTimestampV + durationS
        in [startAndEndSpan startTimestampV endTimestampV
              (removeFirst resourceUrl (locationOrigin h))
              (case initiatorType e of
                 None \<Rightarrow> ''resource.other''
               | Some it \<Rightarrow> if it = [] then ''resource.other'' else ''resource.'' @ it)
              a8])"

subsection \<open>The finalizer\<close>

text \<open>
  \<^verbatim>\<open>_trackNavigator\<close> sets attributes on the span and stores the round-trip time of the
  connection in the measurements; the two effects are given apart.
  \<^verbatim>\<open>isMeasurementValue\<close> of \<^verbatim>\<open>./utils\<close> holds of the numbers, here the values \<open>Some r\<close>.
\<close>
definition trackNavigatorAttributes :: "host \<Rightarrow> (string \<times> attrValue) list" where
  "trackNavigatorAttributes h =
     (case navigator h of
        None \<Rightarrow> []
      | Some nav \<Rightarrow>
          (case connection nav of
             None \<Rightarrow> []
           | Some conn \<Rightarrow>
               (case effectiveType conn of
                  None \<Rightarrow> []
                | Some t \<Rightarrow> if t = [] then [] else [(''effectiveConnectionType'', AStr t)])
               @ (case connType conn of
                    None \<Rightarrow> []
                  | Some t \<Rightarrow> if t = [] then [] else [(''connectionType'', AStr t)]))
          @ (case deviceMemory nav of
               None \<Rightarrow> []
             | Some d \<Rightarrow> [(''deviceMemory'', AStr (numToString h d @ '' GB''))])
          @ (case hardwareConcurrency nav of
               None \<Rightarrow> []
             | Some c \<Rightarrow> [(''hardwareConcurrency'', AStr (numToString h c))]))"

definition trackNavigatorMeasurements :: "host \<Rightarrow> Measurements \<Rightarrow> Measurements" where
  "trackNavigatorMeasurements h ms =
     (case navigator h of
        None \<Rightarrow> ms
      | Some nav \<Rightarrow>
          (case connection nav of
             None \<Rightarrow> ms
           | Some conn \<Rightarrow>
               (case rtt conn of
                  None \<Rightarrow> ms
                | Some r \<Rightarrow> AList.update ''connection.rtt'' \<lparr>val = r, unit = ''millisecond''\<rparr> ms)))"

text \<open>\<^verbatim>\<open>_setWebVitalAttributes\<close>: the debugging attributes of the retained LCP and CLS entries.\<close>
definition setWebVitalAttributes :: "host \<Rightarrow> session \<Rightarrow> (string \<times> attrValue) list" where
  "setWebVitalAttributes h s =
     (case lcpEntry s of
        None \<Rightarrow> []
      | Some l \<Rightarrow>
          (case element l of None \<Rightarrow> [] | Some el \<Rightarrow> [(''lcp.element'', AStr (htmlTreeAsString h el))])
          @ (if lcpId l = [] then [] else [(''lcp.id'', AStr (lcpId l))])
          @ (if lcpUrl l = [] then [] else [(''lcp.url'', AStr (take 200 (stringTrim h (lcpUrl l))))])
          @ [(''lcp.size'', ANum (lcpSize l))])
     @ (case clsEntry s of
          None \<Rightarrow> []
        | Some c \<Rightarrow>
            (case sources c of
               None \<Rightarrow> []
             | Some srcs \<Rightarrow>
                 map (\<lambda>(index, source). (''cls.source.'' @ numToString h (real index + 1),
                                         AStr (htmlTreeAsString h source)))
                   (enumerate 0 srcs)))"

text \<open>\<^verbatim>\<open>_addTtfbRequestTimeToMeasurements\<close>.\<close>
definition addTtfbRequestTimeToMeasurements :: "host \<Rightarrow> Measurements \<Rightarrow> Measurements" where
  "addTtfbRequestTimeToMeasurements h ms =
     (case getNavigationEntry h of
        None \<Rightarrow> ms
      | Some navEntry \<Rightarrow>
          if requestStart navEntry \<le> responseStart navEntry
          then AList.update ''ttfb.requestTime''
                 \<lparr>val = responseStart navEntry - requestStart navEntry, unit = ''millisecond''\<rparr> ms
          else ms)"

text \<open>
  The body of the \<^verbatim>\<open>forEach\<close> of \<^verbatim>\<open>addPerformanceEntries\<close>, on the measurements and the
  spans emitted so far.
\<close>
definition processEntry ::
  "host \<Rightarrow> spanJSON \<Rightarrow> real \<Rightarrow> entry \<Rightarrow> Measurements \<times> SyntheticSpan list
     \<Rightarrow> Measurements \<times> SyntheticSpan list" where
  "processEntry h rootSpan timeOrigin e acc =
     (let startTimeS = msToSec (startTime e);
          durationS = msToSec (max 0 (duration e))
      in if op rootSpan = Some ''navigation'' \<and> start_timestamp rootSpan \<noteq> 0
            \<and> timeOrigin + startTimeS < start_timestamp rootSpan
         then acc
         else if entryType e = ''navigation''
         then (fst acc, snd acc @ addNavigationSpans e timeOrigin)
         else if entryType e = ''mark'' \<or> entryType e = ''paint'' \<or> entryType e = ''measure''
         then
           (let measureSpan = addMeasureSpans h e startTimeS durationS timeOrigin;
                shouldRecord = (case firstHiddenTime h of None \<Rightarrow> True | Some t \<Rightarrow> startTime e < t);
                ms1 = (if name e = ''first-paint'' \<and> shouldRecord
                       then AList.update ''fp'' \<lparr>val = startTime e, unit = ''millisecond''\<rparr> (fst acc)
                       else fst acc);
                ms2 = (if name e = ''first-contentful-paint'' \<and> shouldRecord
                       then AList.update ''fcp'' \<lparr>val = startTime e, unit = ''millisecond''\<rparr> ms1
                       else ms1)
            in (ms2, snd acc @ [measureSpan]))
         else if entryType e = ''resource''
         then (fst acc, snd acc @ addResourceSpans h e (name e) startTimeS durationS timeOrigin)
         else acc)"

primrec forEachEntry ::
  "host \<Rightarrow> spanJSON \<Rightarrow> real \<Rightarrow> entry list \<Rightarrow> Measurements \<times> SyntheticSpan list
     \<Rightarrow> Measurements \<times> SyntheticSpan list" where
  "forEachEntry h rootSpan timeOrigin [] acc = acc"
| "forEachEntry h rootSpan timeOrigin (e # es) acc =
     forEachEntry h rootSpan timeOrigin es (processEntry h rootSpan timeOrigin e acc)"

definition noEffects :: effects where
  "noEffects = \<lparr>spans = [], setMeasurement = [], setAttribute = []\<rparr>"

text \<open>
  The gatekeeper of \<^verbatim>\<open>addPerformanceEntries\<close> lets a call through when the Performance
  API, its \<^verbatim>\<open>getEntries\<close> and a truthy time origin are there.
\<close>
definition apiAvailable :: "host \<Rightarrow> bool" where
  "apiAvailable h =
     (hasPerformance h \<and> hasGetEntries h \<and> truthyNum (browserPerformanceTimeOrigin h))"

text \<open>\<^verbatim>\<open>const timeOrigin = msToSec(browserPerformanceTimeOrigin)\<close>, read behind the gatekeeper.\<close>
definition timeOriginSeconds :: "host \<Rightarrow> real" where
  "timeOriginSeconds h = msToSec (case browserPerformanceTimeOrigin h of Some t \<Rightarrow> t | None \<Rightarrow> 0)"

text \<open>
  \<^verbatim>\<open>performanceEntries.slice(_performanceCursor).forEach(...)\<close>: the measurements after the
  loop and the spans it emitted.
\<close>
definition drainAndClassify :: "host \<Rightarrow> spanJSON \<Rightarrow> session \<Rightarrow> Measurements \<times> SyntheticSpan list" where
  "drainAndClassify h rootSpan s =
     forEachEntry h rootSpan (timeOriginSeconds h)
       (drop (performanceCursor s) (getEntries h)) (measurements s, [])"

text \<open>
  \<^verbatim>\<open>addPerformanceEntries\<close>: the gatekeeper, the classification of the entries from the
  cursor on, the new cursor, \<^verbatim>\<open>_trackNavigator\<close>, the steps for a pageload span, and the
  reset of the retained entries and of the measurements.
\<close>
definition addPerformanceEntries ::
  "host \<Rightarrow> spanJSON \<Rightarrow> AddPerformanceEntriesOptions \<Rightarrow> session \<Rightarrow> session \<times> effects" where
  "addPerformanceEntries h rootSpan options s =
     (if \<not> apiAvailable h then (s, noEffects)
      else
        (let timeOrigin = timeOriginSeconds h;
             performanceEntries = getEntries h;
             acc = drainAndClassify h rootSpan s;
             cursor = nat (max (int (length performanceEntries) - 1) 0);
             navAttrs = trackNavigatorAttributes h;
             ms1 = trackNavigatorMeasurements h (fst acc);
             s' = \<lparr>performanceCursor = cursor, measurements = [], lcpEntry = None, clsEntry = None\<rparr>
         in if op rootSpan = Some ''pageload''
            then
              (let ms2 = addTtfbRequestTimeToMeasurements h ms1;
                   fidSpans = (case map_of ms2 ''mark.fid'' of
                                 None \<Rightarrow> []
                               | Some fidMark \<Rightarrow>
                                   (case map_of ms2 ''fid'' of
                                      None \<Rightarrow> []
                                    | Some fid \<Rightarrow>
                                        [startAndEndSpan (val fidMark) (val fidMark + msToSec (val fid))
                                           ''first input delay'' ''ui.action''
                                           [(SEMANTIC_ATTRIBUTE_SENTRY_ORIGIN,
                                             AStr ''auto.ui.browser.metrics'')]]));
                   ms3 = (case map_of ms2 ''mark.fid'' of
                            None \<Rightarrow> ms2
                          | Some fidMark \<Rightarrow>
                              (case map_of ms2 ''fid'' of
                                 None \<Rightarrow> ms2
                               | Some fid \<Rightarrow> AList.delete ''mark.fid'' ms2));
                   ms4 = (if map_of ms3 ''fcp'' = None then AList.delete ''cls'' ms3
                          else if \<not> recordClsOnPageloadSpan options then AList.delete ''cls'' ms3
                          else ms3)
               in (s', \<lparr>spans = snd acc @ fidSpans,
                        setMeasurement = ms4,
                        setAttribute = navAttrs
                          @ [(''performance.timeOrigin'', ANum timeOrigin),
                             (''performance.activationStart'', ANum (getActivationStart h))]
                          @ setWebVitalAttributes h s\<rparr>))
            else (s', \<lparr>spans = snd acc, setMeasurement = [], setAttribute = navAttrs\<rparr>)))"

subsection \<open>Concrete inputs\<close>

text \<open>An entry with nothing set, the base of the concrete entries below.\<close>
definition blankEntry :: entry where
  "blankEntry =
     \<lparr>entryType = [], name = [], startTime = 0, duration = 0, timing = [],
      requestStart = 0, responseStart = 0, responseEnd = 0, initiatorType = None,
      transferSize = None, encodedBodySize = None, decodedBodySize = None,
      renderBlockingStatus = None, deliveryType = None, target = []\<rparr>"

text \<open>A navigation entry whose request starts at 200 ms and whose response starts at 300 ms.\<close>
definition navEntry200 :: entry where
  "navEntry200 = blankEntry\<lparr>entryType := ''navigation'', name := ''https://example.com/'',
                            requestStart := 200, responseStart := 300, responseEnd := 400\<rparr>"

text \<open>A measure entry that starts at 100 ms, before the request, with a negative duration.\<close>
definition earlyMeasure :: entry where
  "earlyMeasure = blankEntry\<lparr>entryType := ''measure'', name := ''before-hydration'',
                             startTime := 100, duration := - 5\<rparr>"

text \<open>A measure entry that starts at 500 ms, after the request, with a negative duration.\<close>
definition lateMeasure :: entry where
  "lateMeasure = blankEntry\<lparr>entryType := ''measure'', name := ''late'',
                            startTime := 500, duration := - 5\<rparr>"

text \<open>A script resource, and a resource that \<^verbatim>\<open>fetch\<close> loaded.\<close>
definition scriptResource :: entry where
  "scriptResource = blankEntry\<lparr>entryType := ''resource'', name := ''https://example.com/app.js'',
                               startTime := 250, duration := - 3, initiatorType := Some ''script'',
                               transferSize := Some 1024\<rparr>"

definition fetchResource :: entry where
  "fetchResource = blankEntry\<lparr>entryType := ''resource'', name := ''https://example.com/api'',
                              startTime := 260, duration := 40, initiatorType := Some ''fetch''\<rparr>"

text \<open>A click on a button, as an event entry.\<close>
definition clickEvent :: entry where
  "clickEvent = blankEntry\<lparr>entryType := ''event'', name := ''click'', startTime := 700,
                           duration := 16, target := ''button#save''\<rparr>"

text \<open>
  What \<^verbatim>\<open>String.prototype.trim\<close> does to a string of ASCII characters, whose white space
  is the space and the five control characters from 0x09 to 0x0D; the concrete host
  below, whose strings are ASCII, trims with it.
\<close>
definition isAsciiWhiteSpace :: "char \<Rightarrow> bool" where
  "isAsciiWhiteSpace c = (c \<in> set [CHR '' '', CHR 0x09, CHR 0x0A, CHR 0x0B, CHR 0x0C, CHR 0x0D])"

definition trimAscii :: "string \<Rightarrow> string" where
  "trimAscii s = rev (dropWhile isAsciiWhiteSpace (rev (dropWhile isAsciiWhiteSpace s)))"

text \<open>
  A host with the Performance API, the time origin 9000 ms, the navigation entry above,
  a network connection with a round-trip time of 50 ms, no active span, and the log
  given as the argument.
\<close>
definition hostWith :: "entry list \<Rightarrow> host" where
  "hostWith es =
     \<lparr>hasPerformance = True, hasGetEntries = True, browserPerformanceTimeOrigin = Some 9000,
      getEntries = es, getNavigationEntry = Some navEntry200, getActivationStart = 0,
      firstHiddenTime = None,
      navigator = Some \<lparr>connection = Some \<lparr>connType = None, effectiveType = Some ''4g'', rtt = Some 50\<rparr>,
                        deviceMemory = None, hardwareConcurrency = None\<rparr>,
      locationOrigin = ''https://example.com'',
      parseUrl = (\<lambda>u. \<lparr>protocol = Some ''https'', urlHost = Some ''example.com''\<rparr>),
      htmlTreeAsString = (\<lambda>n. n), getComponentName = (\<lambda>n. None), getActiveSpan = False,
      numToString = (\<lambda>r. ''?''), stringTrim = trimAscii\<rparr>"

text \<open>
  The same host with an empty log, where \<^verbatim>\<open>WINDOW.performance\<close> and the time origin are
  there, so that the web vitals are tracked, but \<^verbatim>\<open>WINDOW.performance.getEntries\<close> is not.
\<close>
definition hostWithoutGetEntries :: host where
  "hostWithoutGetEntries = (hostWith [])\<lparr>hasGetEntries := False\<rparr>"

definition pageloadSpan :: spanJSON where
  "pageloadSpan = \<lparr>op = Some ''pageload'', start_timestamp = 9\<rparr>"

definition navigationSpan :: spanJSON where
  "navigationSpan = \<lparr>op = Some ''navigation'', start_timestamp = 9\<rparr>"

definition clsOnPageload :: AddPerformanceEntriesOptions where
  "clsOnPageload = \<lparr>recordClsOnPageloadSpan = True\<rparr>"

text \<open>The module's variables as they are initialised.\<close>
definition initialSession :: session where
  "initialSession = \<lparr>performanceCursor = 0, measurements = [], lcpEntry = None, clsEntry = None\<rparr>"

text \<open>The session after a CLS report of 0.25.\<close>
definition sessionWithCls :: session where
  "sessionWithCls = trackCLS (1/4) [\<lparr>sources = Some [''div#banner'']\<rparr>] initialSession"

text \<open>The session after a CLS report and an LCP report of 1200 ms.\<close>
definition sessionWithVitals :: session where
  "sessionWithVitals =
     trackLCP 1200 [\<lparr>element = Some ''img#hero'', lcpId = ''hero'',
                     lcpUrl = ''https://example.com/hero.png'', lcpSize = 40000\<rparr>] sessionWithCls"

text \<open>The session after the report of a first input delay of 50 ms at 1000 ms.\<close>
definition sessionWithFid :: session where
  "sessionWithFid = trackFID 9000 50 [blankEntry\<lparr>entryType := ''first-input'', startTime := 1000\<rparr>] initialSession"

section \<open>Properties\<close>

subsection \<open>Facts about the classifier and the accumulator\<close>

text \<open>
  Without the Performance API a call returns at once and changes nothing. With it, a
  call leaves the cursor at the index of the last entry of the log, so that the slice of
  the next call on the same non-empty log is that last entry.
  The loop over the drained entries changes the measurements at the keys \<^verbatim>\<open>fp\<close> and
  \<^verbatim>\<open>fcp\<close> only, and the spans it emits have an op that starts with \<^verbatim>\<open>browser.\<close> or
  \<^verbatim>\<open>resource.\<close> or is the type of a mark, paint or measure entry: never \<^verbatim>\<open>ui.action\<close>.
\<close>

lemma gatekeeper_returns:
  "\<not> apiAvailable h \<Longrightarrow> addPerformanceEntries h rootSpan options s = (s, noEffects)"
  by (simp add: addPerformanceEntries_def)

lemma cursor_after_call:
  "apiAvailable h \<Longrightarrow>
   performanceCursor (fst (addPerformanceEntries h rootSpan options s)) = length (getEntries h) - 1"
  by (cases "length (getEntries h)") (simp_all add: addPerformanceEntries_def Let_def)

lemma slice_after_call:
  "apiAvailable h \<Longrightarrow> getEntries h \<noteq> [] \<Longrightarrow>
   drop (performanceCursor (fst (addPerformanceEntries h rootSpan options s))) (getEntries h)
     = [last (getEntries h)]"
  by (cases "getEntries h" rule: rev_cases) (simp_all add: cursor_after_call)

lemma processEntry_map_of:
  "k \<noteq> ''fp'' \<Longrightarrow> k \<noteq> ''fcp'' \<Longrightarrow> map_of (fst (processEntry h r t e acc)) k = map_of (fst acc) k"
  by (simp add: processEntry_def Let_def update_conv')

lemma forEachEntry_map_of:
  "k \<noteq> ''fp'' \<Longrightarrow> k \<noteq> ''fcp'' \<Longrightarrow> map_of (fst (forEachEntry h r t es acc)) k = map_of (fst acc) k"
  by (induction es arbitrary: acc) (simp_all add: processEntry_map_of)

lemma processEntry_keys:
  "fst ` set (fst (processEntry h r t e acc)) \<subseteq> fst ` set (fst acc) \<union> {''fp'', ''fcp''}"
  by (auto simp: processEntry_def Let_def dom_update)

lemma forEachEntry_keys:
  "fst ` set (fst (forEachEntry h r t es acc)) \<subseteq> fst ` set (fst acc) \<union> {''fp'', ''fcp''}"
proof (induction es arbitrary: acc)
  case Nil
  show ?case by auto
next
  case (Cons e es)
  have a: "fst ` set (fst (forEachEntry h r t es (processEntry h r t e acc)))
             \<subseteq> fst ` set (fst (processEntry h r t e acc)) \<union> {''fp'', ''fcp''}"
    by (rule Cons.IH)
  have b: "fst ` set (fst (processEntry h r t e acc)) \<subseteq> fst ` set (fst acc) \<union> {''fp'', ''fcp''}"
    by (rule processEntry_keys)
  from a b have "fst ` set (fst (forEachEntry h r t es (processEntry h r t e acc)))
             \<subseteq> fst ` set (fst acc) \<union> {''fp'', ''fcp''}"
    by blast
  then show ?case by simp
qed

lemma addPerformanceNavigationTiming_op:
  "sp \<in> set (addPerformanceNavigationTiming e ev t nm en) \<Longrightarrow> take 8 (spanOp sp) = ''browser.''"
  by (auto simp: addPerformanceNavigationTiming_def startAndEndSpan_def split: option.splits if_splits)

lemma addRequest_op:
  "sp \<in> set (addRequest e t) \<Longrightarrow> take 8 (spanOp sp) = ''browser.''"
  by (auto simp: addRequest_def startAndEndSpan_def Let_def split: if_splits)

lemma addNavigationSpans_op:
  "sp \<in> set (addNavigationSpans e t) \<Longrightarrow> take 8 (spanOp sp) = ''browser.''"
  by (auto simp: addNavigationSpans_def dest: addPerformanceNavigationTiming_op addRequest_op)

lemma addResourceSpans_op:
  "sp \<in> set (addResourceSpans h e u st d t) \<Longrightarrow> take 9 (spanOp sp) = ''resource.''"
  by (auto simp: addResourceSpans_def startAndEndSpan_def Let_def split: if_splits option.splits)

lemma addMeasureSpans_op: "spanOp (addMeasureSpans h e st d t) = entryType e"
  by (simp add: addMeasureSpans_def startAndEndSpan_def Let_def)

lemma processEntry_no_action:
  "filter (\<lambda>sp. spanOp sp = ''ui.action'') (snd (processEntry h r t e acc))
     = filter (\<lambda>sp. spanOp sp = ''ui.action'') (snd acc)"
proof -
  have nav: "filter (\<lambda>sp. spanOp sp = ''ui.action'') (addNavigationSpans e t) = []"
    by (auto simp: filter_empty_conv dest: addNavigationSpans_op)
  have res: "filter (\<lambda>sp. spanOp sp = ''ui.action'') (addResourceSpans h e u st d t) = []" for u st d
    by (auto simp: filter_empty_conv dest: addResourceSpans_op)
  show ?thesis
    by (auto simp: processEntry_def Let_def nav res addMeasureSpans_op)
qed

lemma forEachEntry_no_action:
  "filter (\<lambda>sp. spanOp sp = ''ui.action'') (snd (forEachEntry h r t es acc))
     = filter (\<lambda>sp. spanOp sp = ''ui.action'') (snd acc)"
  by (induction es arbitrary: acc) (simp_all add: processEntry_no_action)

lemma trackNavigatorMeasurements_map_of:
  "k \<noteq> ''connection.rtt'' \<Longrightarrow> map_of (trackNavigatorMeasurements h ms) k = map_of ms k"
  by (simp add: trackNavigatorMeasurements_def update_conv' split: option.splits)

lemma trackNavigatorMeasurements_keys:
  "fst ` set (trackNavigatorMeasurements h ms) \<subseteq> fst ` set ms \<union> {''connection.rtt''}"
  by (auto simp: trackNavigatorMeasurements_def dom_update split: option.splits)

lemma addTtfb_map_of:
  "k \<noteq> ''ttfb.requestTime'' \<Longrightarrow> map_of (addTtfbRequestTimeToMeasurements h ms) k = map_of ms k"
  by (simp add: addTtfbRequestTimeToMeasurements_def update_conv' split: option.splits)

lemma addTtfb_keys:
  "fst ` set (addTtfbRequestTimeToMeasurements h ms) \<subseteq> fst ` set ms \<union> {''ttfb.requestTime''}"
  by (auto simp: addTtfbRequestTimeToMeasurements_def dom_update split: option.splits)

lemma gate_map_of:
  "k \<noteq> ''fp'' \<Longrightarrow> k \<noteq> ''fcp'' \<Longrightarrow> k \<noteq> ''connection.rtt'' \<Longrightarrow> k \<noteq> ''ttfb.requestTime'' \<Longrightarrow>
   map_of (addTtfbRequestTimeToMeasurements h
            (trackNavigatorMeasurements h (fst (drainAndClassify h r s)))) k
     = map_of (measurements s) k"
  by (simp add: addTtfb_map_of trackNavigatorMeasurements_map_of drainAndClassify_def forEachEntry_map_of)

lemma gate_fcp:
  "map_of (addTtfbRequestTimeToMeasurements h
            (trackNavigatorMeasurements h (fst (drainAndClassify h r s)))) ''fcp''
     = map_of (fst (drainAndClassify h r s)) ''fcp''"
  by (simp add: addTtfb_map_of trackNavigatorMeasurements_map_of)

lemma subset_chain3:
  "C \<subseteq> B \<union> T \<Longrightarrow> B \<subseteq> A \<union> R \<Longrightarrow> A \<subseteq> M \<union> F \<Longrightarrow> C \<subseteq> M \<union> (F \<union> R \<union> T)"
  by blast

lemma gate_keys:
  "fst ` set (addTtfbRequestTimeToMeasurements h
               (trackNavigatorMeasurements h (fst (drainAndClassify h r s))))
     \<subseteq> fst ` set (measurements s) \<union> ({''fp'', ''fcp''} \<union> {''connection.rtt''} \<union> {''ttfb.requestTime''})"
proof -
  have a: "fst ` set (fst (drainAndClassify h r s)) \<subseteq> fst ` set (measurements s) \<union> {''fp'', ''fcp''}"
    using forEachEntry_keys [of h r "timeOriginSeconds h" "drop (performanceCursor s) (getEntries h)"
                               "(measurements s, [])"]
    unfolding drainAndClassify_def fst_conv .
  show ?thesis
    by (rule subset_chain3 [OF addTtfb_keys trackNavigatorMeasurements_keys a])
qed

lemma drain_no_action:
  "filter (\<lambda>sp. spanOp sp = ''ui.action'') (snd (drainAndClassify h r s)) = []"
  by (simp add: drainAndClassify_def forEachEntry_no_action)

lemma processEntry_fcp:
  "''first-contentful-paint'' \<noteq> name e \<Longrightarrow>
   map_of (fst (processEntry h r t e acc)) ''fcp'' = map_of (fst acc) ''fcp''"
  by (auto simp: processEntry_def Let_def update_conv')

lemma forEachEntry_fcp:
  "''first-contentful-paint'' \<notin> name ` set es \<Longrightarrow>
   map_of (fst (forEachEntry h r t es acc)) ''fcp'' = map_of (fst acc) ''fcp''"
  by (induction es arbitrary: acc) (simp_all add: processEntry_fcp)

lemma drain_no_fcp:
  "map_of (measurements s) ''fcp'' = None \<Longrightarrow>
   ''first-contentful-paint'' \<notin> name ` set (drop (performanceCursor s) (getEntries h)) \<Longrightarrow>
   map_of (fst (drainAndClassify h r s)) ''fcp'' = None"
  by (simp add: drainAndClassify_def forEachEntry_fcp)

lemma keys_delete: "fst ` set (AList.delete k al) = fst ` set al - {k}"
proof -
  have "set (map fst (AList.delete k al)) = set (removeAll k (map fst al))"
    by (simp only: delete_keys)
  then show ?thesis by simp
qed

lemma trackNavigatorAttributes_keys:
  "fst ` set (trackNavigatorAttributes h)
     \<subseteq> {''effectiveConnectionType'', ''connectionType'', ''deviceMemory'', ''hardwareConcurrency''}"
  by (auto simp: trackNavigatorAttributes_def split: option.splits if_splits)

lemma cursor_value: "nat (max (int n - 1) 0) = n - 1"
  by (cases n) simp_all

lemma written_keys:
  "fst ` set (setMeasurement (snd (addPerformanceEntries h r options s)))
     \<subseteq> fst ` set (measurements s) \<union> ({''fp'', ''fcp''} \<union> {''connection.rtt''} \<union> {''ttfb.requestTime''})"
proof -
  let ?ms2 = "addTtfbRequestTimeToMeasurements h
                (trackNavigatorMeasurements h (fst (drainAndClassify h r s)))"
  let ?K = "fst ` set (measurements s) \<union> ({''fp'', ''fcp''} \<union> {''connection.rtt''} \<union> {''ttfb.requestTime''})"
  have k2: "fst ` set ?ms2 \<subseteq> ?K"
    by (rule gate_keys)
  have d1: "fst ` set (AList.delete k ?ms2) \<subseteq> ?K" for k
    using dom_delete_subset [of k ?ms2] k2 by (rule subset_trans)
  have d2: "fst ` set (AList.delete k (AList.delete k' ?ms2)) \<subseteq> ?K" for k k'
    using dom_delete_subset [of k "AList.delete k' ?ms2"] d1 [of k'] by (rule subset_trans)
  show ?thesis
    using k2 d1 d2
    by (simp add: addPerformanceEntries_def Let_def noEffects_def split: option.splits)
qed

lemma no_fid_span:
  "map_of (measurements s) ''mark.fid'' = None \<Longrightarrow>
   filter (\<lambda>sp. spanOp sp = ''ui.action'') (spans (snd (addPerformanceEntries h r options s))) = []"
  by (simp add: addPerformanceEntries_def Let_def noEffects_def gate_map_of drain_no_action)

lemma empty_slice_no_spans:
  "map_of (measurements s) ''mark.fid'' = None \<Longrightarrow> drop (performanceCursor s) (getEntries h) = [] \<Longrightarrow>
   spans (snd (addPerformanceEntries h r options s)) = []"
proof -
  assume m: "map_of (measurements s) ''mark.fid'' = None"
    and d: "drop (performanceCursor s) (getEntries h) = []"
  have sn: "snd (drainAndClassify h r s) = []"
    using d by (simp add: drainAndClassify_def)
  show ?thesis
    using m by (simp add: addPerformanceEntries_def Let_def noEffects_def gate_map_of sn)
qed

lemma reset_measurements:
  "apiAvailable h \<Longrightarrow> measurements (fst (addPerformanceEntries h r options s)) = []"
  by (simp add: addPerformanceEntries_def Let_def)

lemma session_after_call:
  "apiAvailable h \<Longrightarrow>
   fst (addPerformanceEntries h rootSpan options s)
     = \<lparr>performanceCursor = length (getEntries h) - 1, measurements = [],
        lcpEntry = None, clsEntry = None\<rparr>"
  by (simp add: addPerformanceEntries_def Let_def cursor_value)

lemma spans_without_fid:
  "apiAvailable h \<Longrightarrow> map_of (measurements s) ''mark.fid'' = None \<Longrightarrow>
   spans (snd (addPerformanceEntries h r options s)) = snd (drainAndClassify h r s)"
  by (simp add: addPerformanceEntries_def Let_def gate_map_of)

text \<open>The definitions that evaluate the model on the concrete inputs.\<close>

lemmas input_defs =
  blankEntry_def navEntry200_def earlyMeasure_def lateMeasure_def scriptResource_def
  fetchResource_def clickEvent_def hostWith_def hostWithoutGetEntries_def pageloadSpan_def
  navigationSpan_def clsOnPageload_def initialSession_def sessionWithCls_def sessionWithFid_def
  sessionWithVitals_def
  trackCLS_def trackLCP_def trackFID_def

lemmas model_defs =
  addPerformanceEntries_def apiAvailable_def truthyNum_def timeOriginSeconds_def
  drainAndClassify_def processEntry_def addMeasureSpans_def addNavigationSpans_def
  addPerformanceNavigationTiming_def addRequest_def addResourceSpans_def
  setResourceEntrySizeData_def entrySize_def MAX_INT_AS_BYTES_def strOr_def splitPop_def
  trackNavigatorAttributes_def trackNavigatorMeasurements_def setWebVitalAttributes_def
  addTtfbRequestTimeToMeasurements_def startAndEndSpan_def msToSec_def noEffects_def
  SEMANTIC_ATTRIBUTE_SENTRY_ORIGIN_def Let_def

lemma first_call_two_entries:
  "fst (addPerformanceEntries (hostWith [navEntry200, scriptResource]) pageloadSpan clsOnPageload initialSession)
     = \<lparr>performanceCursor = 1, measurements = [], lcpEntry = None, clsEntry = None\<rparr>"
  by (simp add: addPerformanceEntries_def apiAvailable_def truthyNum_def hostWith_def Let_def)

subsection \<open>C1: draining twice\<close>

text \<open>
  Claim C1: after one call of \<^verbatim>\<open>addPerformanceEntries\<close> has drained the log, a second call
  with no new entries processes an empty slice, so that no entry is classified twice.
  The code sets the cursor to \<open>max (length log - 1) 0\<close>, the index of the last entry, and
  \<^verbatim>\<open>slice\<close> starts at that index (\<open>slice_after_call\<close>): on the log of a navigation entry
  and a script resource the slice of the second call is the script resource again, and the
  second call emits its span a second time.
\<close>
theorem second_drain_reprocesses_last_entry:
  "drop (performanceCursor (fst (addPerformanceEntries (hostWith [navEntry200, scriptResource])
                                   pageloadSpan clsOnPageload initialSession)))
        (getEntries (hostWith [navEntry200, scriptResource])) = [scriptResource]
   \<and> map spanName (spans (snd (addPerformanceEntries (hostWith [navEntry200, scriptResource])
                                  pageloadSpan clsOnPageload
                                  (fst (addPerformanceEntries (hostWith [navEntry200, scriptResource])
                                          pageloadSpan clsOnPageload initialSession)))))
       = [''/app.js'']"
  unfolding first_call_two_entries
  by (simp add: model_defs input_defs)

subsection \<open>C2: a second call on the reset session\<close>

text \<open>
  Claim C2, as stated, asks that a second call on the session the first call has reset
  (same log, no report in between) produces no spans and writes no measurements. On the log
  of one script resource the second call for a pageload span writes \<^verbatim>\<open>connection.rtt\<close> and
  \<^verbatim>\<open>ttfb.requestTime\<close>, which \<^verbatim>\<open>_trackNavigator\<close> and
  \<^verbatim>\<open>_addTtfbRequestTimeToMeasurements\<close> derive from the host in every call, and it emits the
  span of the resource again.
\<close>
theorem second_finalize_writes_again:
  "map fst (setMeasurement (snd (addPerformanceEntries (hostWith [scriptResource]) pageloadSpan clsOnPageload
              (fst (addPerformanceEntries (hostWith [scriptResource]) pageloadSpan clsOnPageload
                      initialSession)))))
     = [''connection.rtt'', ''ttfb.requestTime'']
   \<and> map spanName (spans (snd (addPerformanceEntries (hostWith [scriptResource]) pageloadSpan clsOnPageload
              (fst (addPerformanceEntries (hostWith [scriptResource]) pageloadSpan clsOnPageload
                      initialSession)))))
     = [''/app.js'']"
  by (simp add: model_defs input_defs)

text \<open>
  Claim C2, amended: a second call on the session that a first call has reset (the
  Performance API is there, the log is the same) takes nothing from the first session.
  What it returns and does is the same whatever the session, the span and the options of
  the first call were, and is what a call on the empty accumulator, with no retained LCP or
  CLS entry, returns and does. The measurements it writes have the names
  \<^verbatim>\<open>connection.rtt\<close>, \<^verbatim>\<open>ttfb.requestTime\<close>, \<^verbatim>\<open>fp\<close> and \<^verbatim>\<open>fcp\<close> only; it emits no
  first-input-delay span; and every span it emits is one that the classification gives for
  the last entry of the log, so none for an empty log. The span and the options of the
  second call are arbitrary.
\<close>
theorem second_finalize_rederives_only:
  "apiAvailable h \<Longrightarrow>
     addPerformanceEntries h rootSpan' options' (fst (addPerformanceEntries h rootSpan options s))
       = addPerformanceEntries h rootSpan' options' (fst (addPerformanceEntries h rootSpan2 options2 t))
     \<and> addPerformanceEntries h rootSpan' options' (fst (addPerformanceEntries h rootSpan options s))
       = addPerformanceEntries h rootSpan' options'
           \<lparr>performanceCursor = performanceCursor (fst (addPerformanceEntries h rootSpan options s)),
            measurements = [], lcpEntry = None, clsEntry = None\<rparr>
     \<and> fst ` set (setMeasurement (snd (addPerformanceEntries h rootSpan' options'
                                       (fst (addPerformanceEntries h rootSpan options s)))))
       \<subseteq> {''connection.rtt'', ''ttfb.requestTime'', ''fp'', ''fcp''}
     \<and> filter (\<lambda>sp. spanOp sp = ''ui.action'')
           (spans (snd (addPerformanceEntries h rootSpan' options'
                          (fst (addPerformanceEntries h rootSpan options s))))) = []
     \<and> set (spans (snd (addPerformanceEntries h rootSpan' options'
                          (fst (addPerformanceEntries h rootSpan options s)))))
       \<subseteq> set (snd (forEachEntry h rootSpan' (timeOriginSeconds h)
                       (drop (length (getEntries h) - 1) (getEntries h)) ([], [])))"
proof -
  assume api: "apiAvailable h"
  let ?s1 = "fst (addPerformanceEntries h rootSpan options s)"
  have s1: "?s1 = \<lparr>performanceCursor = length (getEntries h) - 1, measurements = [],
                    lcpEntry = None, clsEntry = None\<rparr>"
    using api by (rule session_after_call)
  have s2: "fst (addPerformanceEntries h rootSpan2 options2 t)
              = \<lparr>performanceCursor = length (getEntries h) - 1, measurements = [],
                 lcpEntry = None, clsEntry = None\<rparr>"
    using api by (rule session_after_call)
  have empty: "measurements ?s1 = []"
    by (simp add: s1)
  have ind: "addPerformanceEntries h rootSpan' options' ?s1
               = addPerformanceEntries h rootSpan' options' (fst (addPerformanceEntries h rootSpan2 options2 t))"
    by (simp only: s1 s2)
  have fresh: "addPerformanceEntries h rootSpan' options' ?s1
               = addPerformanceEntries h rootSpan' options'
                   \<lparr>performanceCursor = performanceCursor ?s1,
                    measurements = [], lcpEntry = None, clsEntry = None\<rparr>"
    by (simp add: s1)
  have "fst ` set (setMeasurement (snd (addPerformanceEntries h rootSpan' options' ?s1)))
          \<subseteq> fst ` set (measurements ?s1) \<union> ({''fp'', ''fcp''} \<union> {''connection.rtt''} \<union> {''ttfb.requestTime''})"
    by (rule written_keys)
  then have a: "fst ` set (setMeasurement (snd (addPerformanceEntries h rootSpan' options' ?s1)))
          \<subseteq> {''connection.rtt'', ''ttfb.requestTime'', ''fp'', ''fcp''}"
    unfolding empty by (simp add: insert_commute)
  have b: "filter (\<lambda>sp. spanOp sp = ''ui.action'')
             (spans (snd (addPerformanceEntries h rootSpan' options' ?s1))) = []"
    by (rule no_fid_span) (simp add: empty)
  have "spans (snd (addPerformanceEntries h rootSpan' options' ?s1)) = snd (drainAndClassify h rootSpan' ?s1)"
    using api by (rule spans_without_fid) (simp add: empty)
  also have "\<dots> = snd (forEachEntry h rootSpan' (timeOriginSeconds h)
                       (drop (length (getEntries h) - 1) (getEntries h)) ([], []))"
    by (simp add: drainAndClassify_def s1)
  finally have c: "set (spans (snd (addPerformanceEntries h rootSpan' options' ?s1)))
       \<subseteq> set (snd (forEachEntry h rootSpan' (timeOriginSeconds h)
                       (drop (length (getEntries h) - 1) (getEntries h)) ([], [])))"
    by simp
  from ind fresh a b c show ?thesis by (intro conjI)
qed

text \<open>
  Witness for C2, amended: a log of a navigation entry and a script resource; the first call
  is for a pageload span on the session with a first input delay recorded, and is compared
  with a first call for a navigation span on the initial session.
\<close>
theorem second_finalize_rederives_only_witness:
  "apiAvailable (hostWith [navEntry200, scriptResource])
   \<and> (addPerformanceEntries (hostWith [navEntry200, scriptResource]) pageloadSpan clsOnPageload
        (fst (addPerformanceEntries (hostWith [navEntry200, scriptResource]) pageloadSpan clsOnPageload
                sessionWithFid))
       = addPerformanceEntries (hostWith [navEntry200, scriptResource]) pageloadSpan clsOnPageload
           (fst (addPerformanceEntries (hostWith [navEntry200, scriptResource]) navigationSpan clsOnPageload
                   initialSession))
     \<and> addPerformanceEntries (hostWith [navEntry200, scriptResource]) pageloadSpan clsOnPageload
         (fst (addPerformanceEntries (hostWith [navEntry200, scriptResource]) pageloadSpan clsOnPageload
                 sessionWithFid))
       = addPerformanceEntries (hostWith [navEntry200, scriptResource]) pageloadSpan clsOnPageload
           \<lparr>performanceCursor =
              performanceCursor (fst (addPerformanceEntries (hostWith [navEntry200, scriptResource])
                                        pageloadSpan clsOnPageload sessionWithFid)),
            measurements = [], lcpEntry = None, clsEntry = None\<rparr>
     \<and> fst ` set (setMeasurement (snd (addPerformanceEntries (hostWith [navEntry200, scriptResource])
                                       pageloadSpan clsOnPageload
                                       (fst (addPerformanceEntries (hostWith [navEntry200, scriptResource])
                                               pageloadSpan clsOnPageload sessionWithFid)))))
       \<subseteq> {''connection.rtt'', ''ttfb.requestTime'', ''fp'', ''fcp''}
     \<and> filter (\<lambda>sp. spanOp sp = ''ui.action'')
           (spans (snd (addPerformanceEntries (hostWith [navEntry200, scriptResource])
                          pageloadSpan clsOnPageload
                          (fst (addPerformanceEntries (hostWith [navEntry200, scriptResource])
                                  pageloadSpan clsOnPageload sessionWithFid))))) = []
     \<and> set (spans (snd (addPerformanceEntries (hostWith [navEntry200, scriptResource])
                          pageloadSpan clsOnPageload
                          (fst (addPerformanceEntries (hostWith [navEntry200, scriptResource])
                                  pageloadSpan clsOnPageload sessionWithFid)))))
       \<subseteq> set (snd (forEachEntry (hostWith [navEntry200, scriptResource]) pageloadSpan
                       (timeOriginSeconds (hostWith [navEntry200, scriptResource]))
                       (drop (length (getEntries (hostWith [navEntry200, scriptResource])) - 1)
                          (getEntries (hostWith [navEntry200, scriptResource]))) ([], []))))"
proof -
  have a: "apiAvailable (hostWith [navEntry200, scriptResource])"
    by (simp add: apiAvailable_def truthyNum_def hostWith_def)
  from a second_finalize_rederives_only
           [OF a, of pageloadSpan clsOnPageload pageloadSpan clsOnPageload sessionWithFid
              navigationSpan clsOnPageload initialSession]
  show ?thesis by (rule conjI)
qed

subsection \<open>C3: the attributes of a pinned measure span\<close>

text \<open>
  Claim C3: a measure entry that starts before the navigation entry's \<^verbatim>\<open>requestStart\<close> gives
  a span whose start is pinned to \<^verbatim>\<open>requestStart\<close>, with a flag attribute and an attribute
  that records the original timestamp. For the measure entry that starts at 100 ms, with the
  request at 200 ms and the time origin at 9 s, the span starts at 9.2 s and carries the
  flag, but \<^verbatim>\<open>sentry.browser.measure_start_time\<close> holds 9.2 s, the pinned start
  (\<^verbatim>\<open>measureStartTimestamp\<close>), where the original start is 9.1 s.
\<close>
theorem measure_start_time_attribute_is_pinned:
  "startTime earlyMeasure < requestStart navEntry200
   \<and> timeOriginSeconds (hostWith [earlyMeasure]) + msToSec (startTime earlyMeasure) = 91 / 10
   \<and> map (\<lambda>sp. (startTimestamp sp,
                 map_of (attributes sp) ''sentry.browser.measure_happened_before_request'',
                 map_of (attributes sp) ''sentry.browser.measure_start_time''))
         (spans (snd (addPerformanceEntries (hostWith [earlyMeasure]) pageloadSpan clsOnPageload
                        initialSession)))
       = [(46 / 5, Some (ABool True), Some (ANum (46 / 5)))]"
  by (simp add: model_defs input_defs)

subsection \<open>C4: the clamp of negative durations\<close>

text \<open>
  The duration of an entry is clamped to 0 before the spans are built. For a resource
  entry, and for a mark, paint or measure entry that does not start before the navigation
  entry's \<^verbatim>\<open>requestStart\<close> (0 when there is no navigation entry), a negative duration then
  gives a span whose end timestamp minus its start timestamp is exactly 0
  (\<open>duration_clamp_unpinned\<close>). For an entry that starts before \<^verbatim>\<open>requestStart\<close> the start
  of the span is pinned to the request and its end is not, so that a duration of 0 or less
  gives a span that ends before it starts (\<open>pinned_measure_reversed\<close>).
\<close>
lemma duration_clamp_unpinned:
  "duration e < 0 \<Longrightarrow>
   entryType e = ''resource''
     \<or> ((entryType e = ''mark'' \<or> entryType e = ''paint'' \<or> entryType e = ''measure'')
        \<and> (case getNavigationEntry h of Some navEntry \<Rightarrow> requestStart navEntry | None \<Rightarrow> 0) \<le> startTime e) \<Longrightarrow>
   sp \<in> set (snd (processEntry h rootSpan timeOrigin e (ms, []))) \<Longrightarrow>
   endTimestamp sp - startTimestamp sp = 0"
  by (auto simp: processEntry_def Let_def addResourceSpans_def addMeasureSpans_def startAndEndSpan_def
        msToSec_def max_def split: if_splits option.splits)

lemma pinned_measure_reversed:
  "getNavigationEntry h = Some navEntry \<Longrightarrow> startTime e < requestStart navEntry \<Longrightarrow>
   duration e \<le> 0 \<Longrightarrow>
   endTimestamp (addMeasureSpans h e (msToSec (startTime e)) (msToSec (max 0 (duration e))) timeOrigin)
     < startTimestamp (addMeasureSpans h e (msToSec (startTime e)) (msToSec (max 0 (duration e))) timeOrigin)"
  by (simp add: addMeasureSpans_def startAndEndSpan_def msToSec_def Let_def max_def)

text \<open>
  Claim C4: every resource or measure entry with a negative duration gets a span of
  duration exactly 0, never a negative one. The measure entry that starts at 100 ms with
  the duration -5 ms, before the request at 200 ms, gets one span, from 9.2 s to 9.1 s, of
  duration -0.1 s: its start is pinned to the request, its end is the original start plus
  the clamped duration. The clamp is there so that no span of negative duration is sent,
  and \<^verbatim>\<open>_addRequest\<close> emits nothing rather than a span that ends before it starts.
\<close>
theorem pinned_measure_negative_duration:
  "entryType earlyMeasure = ''measure'' \<and> duration earlyMeasure < 0
   \<and> map startTimestamp
         (spans (snd (addPerformanceEntries (hostWith [earlyMeasure]) pageloadSpan clsOnPageload
                        initialSession))) = [46 / 5]
   \<and> map endTimestamp
         (spans (snd (addPerformanceEntries (hostWith [earlyMeasure]) pageloadSpan clsOnPageload
                        initialSession))) = [91 / 10]
   \<and> (91 / 10 :: real) - 46 / 5 = - (1 / 10)"
  by (simp add: model_defs input_defs)

subsection \<open>C5: the reset of the session\<close>

text \<open>
  Claim C5, as stated, has every field of the session reset after the call for the pageload
  span, the cursor included. After a call on a log of two entries the cursor is 1, where
  the cursor of a new session is 0.
\<close>
theorem cursor_not_reset:
  "performanceCursor initialSession = 0
   \<and> performanceCursor (fst (addPerformanceEntries (hostWith [navEntry200, scriptResource])
                                pageloadSpan clsOnPageload initialSession)) = 1"
  unfolding first_call_two_entries by (simp add: initialSession_def)

text \<open>
  Claim C5, amended: after a call that passes the gatekeeper, for the pageload span as for
  any other, the measurements are empty and the retained LCP and CLS entries are undefined;
  the cursor is not among the fields that are reset: the call leaves it within one entry
  of the end of the cumulative log, at least the length of the log minus 1 and at most
  its length.
\<close>
theorem session_reset_keeps_cursor:
  "apiAvailable h \<Longrightarrow>
     measurements (fst (addPerformanceEntries h rootSpan options s)) = []
     \<and> lcpEntry (fst (addPerformanceEntries h rootSpan options s)) = None
     \<and> clsEntry (fst (addPerformanceEntries h rootSpan options s)) = None
     \<and> length (getEntries h) - 1 \<le> performanceCursor (fst (addPerformanceEntries h rootSpan options s))
     \<and> performanceCursor (fst (addPerformanceEntries h rootSpan options s)) \<le> length (getEntries h)"
  by (simp add: addPerformanceEntries_def Let_def cursor_value)

text \<open>
  Witness for C5, amended: a log of two entries and the session with a CLS and an LCP report.
\<close>
theorem session_reset_keeps_cursor_witness:
  "apiAvailable (hostWith [navEntry200, scriptResource])
   \<and> measurements (fst (addPerformanceEntries (hostWith [navEntry200, scriptResource]) pageloadSpan
                            clsOnPageload sessionWithVitals)) = []
   \<and> lcpEntry (fst (addPerformanceEntries (hostWith [navEntry200, scriptResource]) pageloadSpan
                        clsOnPageload sessionWithVitals)) = None
   \<and> clsEntry (fst (addPerformanceEntries (hostWith [navEntry200, scriptResource]) pageloadSpan
                        clsOnPageload sessionWithVitals)) = None
   \<and> 1 \<le> performanceCursor (fst (addPerformanceEntries (hostWith [navEntry200, scriptResource])
                                      pageloadSpan clsOnPageload sessionWithVitals))
   \<and> performanceCursor (fst (addPerformanceEntries (hostWith [navEntry200, scriptResource])
                                pageloadSpan clsOnPageload sessionWithVitals)) \<le> 2"
proof -
  have a: "apiAvailable (hostWith [navEntry200, scriptResource])"
    by (simp add: apiAvailable_def truthyNum_def hostWith_def)
  have l: "length (getEntries (hostWith [navEntry200, scriptResource])) = 2"
    by (simp add: hostWith_def)
  from a session_reset_keeps_cursor [OF a, of pageloadSpan clsOnPageload sessionWithVitals]
  show ?thesis unfolding l by simp
qed

subsection \<open>C6: the gate of the CLS measurement\<close>

text \<open>
  Claim C6: when the accumulator holds no \<^verbatim>\<open>fcp\<close> measurement at the finalizer's steps,
  that is after the classification of the drained entries, or when the options do not ask
  for CLS on the pageload span, no \<^verbatim>\<open>cls\<close> measurement is written to the span, whatever
  the accumulator holds for \<^verbatim>\<open>cls\<close>. It holds for every span, the pageload span included.
  The steps between the classification and the gate do not touch \<^verbatim>\<open>fcp\<close>
  (\<open>gate_fcp\<close>), and a session without \<^verbatim>\<open>fcp\<close> whose drained entries have no
  \<^verbatim>\<open>first-contentful-paint\<close> entry has none after the classification (\<open>drain_no_fcp\<close>).
\<close>
theorem cls_gating:
  "map_of (fst (drainAndClassify h rootSpan s)) ''fcp'' = None \<or> \<not> recordClsOnPageloadSpan options
   \<Longrightarrow> ''cls'' \<notin> fst ` set (setMeasurement (snd (addPerformanceEntries h rootSpan options s)))"
proof -
  assume gate: "map_of (fst (drainAndClassify h rootSpan s)) ''fcp'' = None \<or> \<not> recordClsOnPageloadSpan options"
  let ?ms2 = "addTtfbRequestTimeToMeasurements h
                (trackNavigatorMeasurements h (fst (drainAndClassify h rootSpan s)))"
  have fcp2: "map_of ?ms2 ''fcp'' = map_of (fst (drainAndClassify h rootSpan s)) ''fcp''"
    by (rule gate_fcp)
  have fcp3: "map_of (AList.delete ''mark.fid'' ?ms2) ''fcp'' = map_of (fst (drainAndClassify h rootSpan s)) ''fcp''"
    by (simp add: fcp2)
  from gate show ?thesis
  proof
    assume "map_of (fst (drainAndClassify h rootSpan s)) ''fcp'' = None"
    then show ?thesis
      by (simp add: addPerformanceEntries_def Let_def noEffects_def fcp2 fcp3 delete_notin_dom
            split: option.splits)
  next
    assume "\<not> recordClsOnPageloadSpan options"
    then show ?thesis
      by (simp add: addPerformanceEntries_def Let_def noEffects_def delete_notin_dom
            split: option.splits)
  qed
qed

text \<open>
  Witness for C6: the session after a CLS report, a log without a paint entry, and options
  that ask for CLS on the pageload span.
\<close>
theorem cls_gating_witness:
  "map_of (measurements sessionWithCls) ''cls'' = Some \<lparr>val = 1 / 4, unit = []\<rparr>
   \<and> map_of (fst (drainAndClassify (hostWith [scriptResource]) pageloadSpan sessionWithCls)) ''fcp'' = None
   \<and> ''cls'' \<notin> fst ` set (setMeasurement (snd (addPerformanceEntries (hostWith [scriptResource])
                                                pageloadSpan clsOnPageload sessionWithCls)))"
proof -
  have c: "map_of (measurements sessionWithCls) ''cls'' = Some \<lparr>val = 1 / 4, unit = []\<rparr>"
    by (simp add: input_defs)
  have h: "map_of (fst (drainAndClassify (hostWith [scriptResource]) pageloadSpan sessionWithCls)) ''fcp'' = None"
    by (simp add: model_defs input_defs)
  then have "map_of (fst (drainAndClassify (hostWith [scriptResource]) pageloadSpan sessionWithCls)) ''fcp'' = None
             \<or> \<not> recordClsOnPageloadSpan clsOnPageload"
    by (rule disjI1)
  from c h cls_gating [OF this] show ?thesis by (intro conjI)
qed

subsection \<open>C7: the span of the first input delay\<close>

text \<open>
  Claim C7, as stated, has the first-input-delay span emitted and \<^verbatim>\<open>mark.fid\<close> deleted
  whenever a \<^verbatim>\<open>fid\<close> measurement and its \<^verbatim>\<open>mark.fid\<close> timestamp are there when the pageload
  span is finalized. On the host that tracks the web vitals but has no
  \<^verbatim>\<open>performance.getEntries\<close>, the call for the pageload span returns at the gatekeeper: it
  emits no span, and the accumulator still holds \<^verbatim>\<open>mark.fid\<close>.
\<close>
theorem fid_span_needs_api:
  "op pageloadSpan = Some ''pageload''
   \<and> map_of (measurements sessionWithFid) ''fid'' = Some \<lparr>val = 50, unit = ''millisecond''\<rparr>
   \<and> map_of (measurements sessionWithFid) ''mark.fid'' = Some \<lparr>val = 10, unit = ''second''\<rparr>
   \<and> spans (snd (addPerformanceEntries hostWithoutGetEntries pageloadSpan clsOnPageload sessionWithFid)) = []
   \<and> map_of (measurements (fst (addPerformanceEntries hostWithoutGetEntries pageloadSpan clsOnPageload
                                   sessionWithFid))) ''mark.fid''
       = Some \<lparr>val = 10, unit = ''second''\<rparr>"
  by (simp add: model_defs input_defs)

text \<open>
  Claim C7, amended: when a call for a pageload span passes the gatekeeper and the session
  holds a \<^verbatim>\<open>fid\<close> measurement and its \<^verbatim>\<open>mark.fid\<close> timestamp, exactly one span with the op
  \<^verbatim>\<open>ui.action\<close> is emitted; it is named \<^verbatim>\<open>first input delay\<close> and runs from \<^verbatim>\<open>mark.fid\<close> to
  \<^verbatim>\<open>mark.fid\<close> plus the \<^verbatim>\<open>fid\<close> value in seconds. The \<^verbatim>\<open>fid\<close> measurement is written to the
  span with its value, \<^verbatim>\<open>mark.fid\<close> is not among the measurements written, and the
  accumulator does not hold \<^verbatim>\<open>mark.fid\<close> after the call. The classification and
  \<^verbatim>\<open>_trackNavigator\<close> leave both keys as the session has them (\<open>gate_map_of\<close>).
\<close>
theorem fid_derived_span:
  assumes "apiAvailable h" and "op rootSpan = Some ''pageload''"
    and "map_of (measurements s) ''fid'' = Some fid"
    and "map_of (measurements s) ''mark.fid'' = Some fidMark"
  shows "filter (\<lambda>sp. spanOp sp = ''ui.action'') (spans (snd (addPerformanceEntries h rootSpan options s)))
           = [\<lparr>spanName = ''first input delay'', spanOp = ''ui.action'',
               startTimestamp = val fidMark, endTimestamp = val fidMark + val fid / 1000,
               attributes = [(''sentry.origin'', AStr ''auto.ui.browser.metrics'')]\<rparr>]
         \<and> map_of (setMeasurement (snd (addPerformanceEntries h rootSpan options s))) ''fid'' = Some fid
         \<and> ''mark.fid'' \<notin> fst ` set (setMeasurement (snd (addPerformanceEntries h rootSpan options s)))
         \<and> map_of (measurements (fst (addPerformanceEntries h rootSpan options s))) ''mark.fid'' = None"
proof -
  let ?ms2 = "addTtfbRequestTimeToMeasurements h
                (trackNavigatorMeasurements h (fst (drainAndClassify h rootSpan s)))"
  have fid: "map_of ?ms2 ''fid'' = Some fid"
    using assms(3) by (simp add: gate_map_of)
  have mark: "map_of ?ms2 ''mark.fid'' = Some fidMark"
    using assms(4) by (simp add: gate_map_of)
  have nomark: "''mark.fid'' \<notin> fst ` set (AList.delete ''cls'' (AList.delete ''mark.fid'' ?ms2))"
    by (simp add: keys_delete)
  have nomark': "''mark.fid'' \<notin> fst ` set (AList.delete ''mark.fid'' ?ms2)"
    by (rule delete_notin_dom)
  have fid3: "map_of (AList.delete ''mark.fid'' ?ms2) ''fid'' = Some fid"
    by (simp add: fid)
  have fid4: "map_of (AList.delete ''cls'' (AList.delete ''mark.fid'' ?ms2)) ''fid'' = Some fid"
    by (simp add: fid)
  show ?thesis
    using assms(1,2) nomark nomark' fid3 fid4
    by (simp add: addPerformanceEntries_def Let_def fid mark drain_no_action
          startAndEndSpan_def msToSec_def SEMANTIC_ATTRIBUTE_SENTRY_ORIGIN_def)
qed

text \<open>
  Witness for C7, amended: a first input delay of 50 ms reported at 1000 ms with the time
  origin 9000 ms, so that \<^verbatim>\<open>mark.fid\<close> is 10 s; the span runs from 10 s to 10.05 s.
\<close>
theorem fid_derived_span_witness:
  "apiAvailable (hostWith [navEntry200, earlyMeasure]) \<and> op pageloadSpan = Some ''pageload''
   \<and> map_of (measurements sessionWithFid) ''fid'' = Some \<lparr>val = 50, unit = ''millisecond''\<rparr>
   \<and> map_of (measurements sessionWithFid) ''mark.fid'' = Some \<lparr>val = 10, unit = ''second''\<rparr>
   \<and> filter (\<lambda>sp. spanOp sp = ''ui.action'')
        (spans (snd (addPerformanceEntries (hostWith [navEntry200, earlyMeasure]) pageloadSpan
                       clsOnPageload sessionWithFid)))
       = [\<lparr>spanName = ''first input delay'', spanOp = ''ui.action'',
           startTimestamp = 10, endTimestamp = 201 / 20,
           attributes = [(''sentry.origin'', AStr ''auto.ui.browser.metrics'')]\<rparr>]
   \<and> map_of (setMeasurement (snd (addPerformanceEntries (hostWith [navEntry200, earlyMeasure])
                                     pageloadSpan clsOnPageload sessionWithFid))) ''fid''
       = Some \<lparr>val = 50, unit = ''millisecond''\<rparr>
   \<and> ''mark.fid'' \<notin> fst ` set (setMeasurement (snd (addPerformanceEntries
                                    (hostWith [navEntry200, earlyMeasure]) pageloadSpan
                                    clsOnPageload sessionWithFid)))
   \<and> map_of (measurements (fst (addPerformanceEntries (hostWith [navEntry200, earlyMeasure])
                                   pageloadSpan clsOnPageload sessionWithFid))) ''mark.fid'' = None"
proof -
  have a: "apiAvailable (hostWith [navEntry200, earlyMeasure])"
    by (simp add: apiAvailable_def truthyNum_def hostWith_def)
  have b: "op pageloadSpan = Some ''pageload''"
    by (simp add: pageloadSpan_def)
  have c: "map_of (measurements sessionWithFid) ''fid'' = Some \<lparr>val = 50, unit = ''millisecond''\<rparr>"
    by (simp add: input_defs msToSec_def)
  have d: "map_of (measurements sessionWithFid) ''mark.fid'' = Some \<lparr>val = 10, unit = ''second''\<rparr>"
    by (simp add: input_defs msToSec_def)
  from a b c d fid_derived_span [OF a b c d, of clsOnPageload] show ?thesis by simp
qed

subsection \<open>C8: resources of fetch and XHR\<close>

text \<open>
  Claim C8: for a resource entry whose \<^verbatim>\<open>initiatorType\<close> is \<^verbatim>\<open>fetch\<close> or
  \<^verbatim>\<open>xmlhttprequest\<close>, \<^verbatim>\<open>_addResourceSpans\<close> produces no span, whatever the other fields and
  arguments are.
\<close>
theorem fetch_xhr_suppressed:
  "initiatorType e = Some ''fetch'' \<or> initiatorType e = Some ''xmlhttprequest'' \<Longrightarrow>
   addResourceSpans h e resourceUrl startTimeS durationS timeOrigin = []"
  by (auto simp: addResourceSpans_def)

text \<open>Witness for C8: the resource that \<^verbatim>\<open>fetch\<close> loaded.\<close>
theorem fetch_xhr_suppressed_witness:
  "initiatorType fetchResource = Some ''fetch''
   \<and> addResourceSpans (hostWith [fetchResource]) fetchResource (name fetchResource) (13 / 50) (1 / 25) 9 = []"
proof -
  have h: "initiatorType fetchResource = Some ''fetch''"
    by (simp add: fetchResource_def blankEntry_def)
  then have "initiatorType fetchResource = Some ''fetch'' \<or> initiatorType fetchResource = Some ''xmlhttprequest''"
    by (rule disjI1)
  from h fetch_xhr_suppressed [OF this] show ?thesis by (rule conjI)
qed

subsection \<open>C9: a span that is not a pageload span\<close>

text \<open>
  Claim C9, as stated, has the measurements and the retained LCP and CLS entries cleared at
  the end of every call for a span whose op is not \<^verbatim>\<open>pageload\<close>. On the host that tracks
  the web vitals but has no \<^verbatim>\<open>performance.getEntries\<close>, the call for a navigation span
  returns at the gatekeeper and the session keeps its \<^verbatim>\<open>cls\<close> and \<^verbatim>\<open>lcp\<close> measurements and
  its retained CLS and LCP entries.
\<close>
theorem non_pageload_without_api_keeps_session:
  "op navigationSpan = Some ''navigation''
   \<and> map fst (measurements (fst (addPerformanceEntries hostWithoutGetEntries navigationSpan clsOnPageload
                                    sessionWithVitals))) = [''cls'', ''lcp'']
   \<and> clsEntry (fst (addPerformanceEntries hostWithoutGetEntries navigationSpan clsOnPageload
                        sessionWithVitals)) = Some \<lparr>sources = Some [''div#banner'']\<rparr>
   \<and> lcpEntry (fst (addPerformanceEntries hostWithoutGetEntries navigationSpan clsOnPageload
                        sessionWithVitals))
       = Some \<lparr>element = Some ''img#hero'', lcpId = ''hero'',
               lcpUrl = ''https://example.com/hero.png'', lcpSize = 40000\<rparr>"
  by (simp add: model_defs input_defs)

text \<open>
  Claim C9, amended: for every call with a span whose op is not \<^verbatim>\<open>pageload\<close>, no measurement
  is written and the only attributes set are those of \<^verbatim>\<open>_trackNavigator\<close>, so none of
  \<^verbatim>\<open>performance.timeOrigin\<close>, \<^verbatim>\<open>performance.activationStart\<close> and the LCP and CLS attributes;
  and when the call passes the gatekeeper, the measurements and the retained LCP and CLS
  entries are cleared all the same when it ends.
\<close>
theorem non_pageload_finalize:
  "op rootSpan \<noteq> Some ''pageload'' \<Longrightarrow>
     setMeasurement (snd (addPerformanceEntries h rootSpan options s)) = []
     \<and> fst ` set (setAttribute (snd (addPerformanceEntries h rootSpan options s)))
         \<subseteq> {''effectiveConnectionType'', ''connectionType'', ''deviceMemory'', ''hardwareConcurrency''}
     \<and> (apiAvailable h \<longrightarrow>
          measurements (fst (addPerformanceEntries h rootSpan options s)) = []
          \<and> lcpEntry (fst (addPerformanceEntries h rootSpan options s)) = None
          \<and> clsEntry (fst (addPerformanceEntries h rootSpan options s)) = None)"
  using trackNavigatorAttributes_keys [of h]
  by (simp add: addPerformanceEntries_def Let_def noEffects_def)

text \<open>
  Witness for C9, amended: a navigation span on a host with the Performance API, and the
  session with a CLS and an LCP report, which the call discards.
\<close>
theorem non_pageload_finalize_witness:
  "op navigationSpan \<noteq> Some ''pageload'' \<and> apiAvailable (hostWith [navEntry200, lateMeasure])
   \<and> measurements sessionWithVitals \<noteq> [] \<and> lcpEntry sessionWithVitals \<noteq> None \<and> clsEntry sessionWithVitals \<noteq> None
   \<and> setMeasurement (snd (addPerformanceEntries (hostWith [navEntry200, lateMeasure]) navigationSpan
                              clsOnPageload sessionWithVitals)) = []
   \<and> fst ` set (setAttribute (snd (addPerformanceEntries (hostWith [navEntry200, lateMeasure])
                                      navigationSpan clsOnPageload sessionWithVitals)))
       \<subseteq> {''effectiveConnectionType'', ''connectionType'', ''deviceMemory'', ''hardwareConcurrency''}
   \<and> measurements (fst (addPerformanceEntries (hostWith [navEntry200, lateMeasure]) navigationSpan
                            clsOnPageload sessionWithVitals)) = []
   \<and> lcpEntry (fst (addPerformanceEntries (hostWith [navEntry200, lateMeasure]) navigationSpan
                        clsOnPageload sessionWithVitals)) = None
   \<and> clsEntry (fst (addPerformanceEntries (hostWith [navEntry200, lateMeasure]) navigationSpan
                        clsOnPageload sessionWithVitals)) = None"
proof -
  have a: "op navigationSpan \<noteq> Some ''pageload''"
    by (simp add: navigationSpan_def)
  have b: "apiAvailable (hostWith [navEntry200, lateMeasure])"
    by (simp add: apiAvailable_def truthyNum_def hostWith_def)
  have c: "measurements sessionWithVitals \<noteq> [] \<and> lcpEntry sessionWithVitals \<noteq> None \<and> clsEntry sessionWithVitals \<noteq> None"
    by (simp add: input_defs)
  from a b c non_pageload_finalize [OF a, of "hostWith [navEntry200, lateMeasure]" clsOnPageload sessionWithVitals]
  show ?thesis by simp
qed

subsection \<open>C10: interactions without an active span\<close>

text \<open>
  Claim C10: while \<^verbatim>\<open>getActiveSpan()\<close> returns no span, the handler of
  \<^verbatim>\<open>startTrackingInteractions\<close> starts no span for any batch of entries, click entries
  included.
\<close>
theorem interaction_needs_active_span:
  "\<not> getActiveSpan h \<Longrightarrow> interactionHandler h timeOriginMs es = []"
  by (simp add: interactionHandler_def)

text \<open>Witness for C10: a batch with one click entry on a host without an active span.\<close>
theorem interaction_needs_active_span_witness:
  "\<not> getActiveSpan (hostWith []) \<and> name clickEvent = ''click''
   \<and> interactionHandler (hostWith []) 9000 [clickEvent] = []"
proof -
  have h: "\<not> getActiveSpan (hostWith [])"
    by (simp add: hostWith_def)
  have n: "name clickEvent = ''click''"
    by (simp add: clickEvent_def blankEntry_def)
  from h n interaction_needs_active_span [OF h] show ?thesis by simp
qed

end
